theory Spec2Isabelle
  imports Main "HOL-Library.Char_ord" "HOL-Library.List_Lexorder" "HOL-Library.Multiset"
begin

section \<open>The type model (package parse/types)\<close>

text \<open>
  Modelled from the spec: the declarations of package \<^verbatim>\<open>parse/types\<close> (Param and its
  variants, Method, Interface, Struct, Package) are not part of the sources at hand. The
  constructors and fields below are the ones \<^verbatim>\<open>gen/gen.go\<close> reads: \<^verbatim>\<open>tp.Typ\<close>,
  \<^verbatim>\<open>tp.Pkg\<close>, \<^verbatim>\<open>tp.Length\<close>, \<^verbatim>\<open>tp.Key\<close>, \<^verbatim>\<open>tp.Elem\<close>, \<^verbatim>\<open>tp.Methods\<close>,
  \<^verbatim>\<open>m.Name\<close>, \<^verbatim>\<open>m.Params\<close>, \<^verbatim>\<open>m.Returns\<close>. \<^verbatim>\<open>types.Param\<close> is a Go interface, so a
  value may have a dynamic type that none of the seven cases of a type switch matches:
  \<open>OtherParam\<close> stands for every such value (its argument names the dynamic type).
\<close>

datatype param =
    BasicParam string
  | NamedParam string string
  | ArrayParam param int
  | SliceParam param
  | PointerParam param
  | MapParam param param
  | InterfaceParam "Method list"
  | OtherParam string
and Method = Method (m_Name: string) (m_Params: "param list") (m_Returns: "param list")

record Interface =
  iface_Name :: string
  iface_Methods :: "Method list"

record Attr =
  attr_Name :: string
  attr_Type :: param

record Struct =
  strct_Name :: string
  strct_Attrs :: "Attr list"

record Package =
  pkg_Name :: string
  pkg_PkgPath :: string
  pkg_Interfaces :: "Interface list"
  pkg_Structs :: "Struct list"

section \<open>Package fmt and strings, as far as gen.go uses them\<close>

text \<open>The verb \<^verbatim>\<open>%d\<close>: decimal digits, most significant first, a minus sign for a
  negative operand (the operand of \<^verbatim>\<open>[%d]\<close> is the array length, taken to be an integer).\<close>

definition digit :: "nat \<Rightarrow> char" where
  "digit d = ''0123456789'' ! d"

function dec :: "nat \<Rightarrow> string" where
  "dec n = (if n < 10 then [digit n] else dec (n div 10) @ [digit (n mod 10)])"
  by pat_completeness auto
termination
  by (relation "measure id") auto

declare dec.simps [simp del]

definition itoa :: "int \<Rightarrow> string" where
  "itoa i = (if i < 0 then ''-'' @ dec (nat (- i)) else dec (nat i))"

text \<open>\<^verbatim>\<open>strings.Join\<close>.\<close>

fun Join :: "string list \<Rightarrow> string \<Rightarrow> string" where
  "Join [] sep = []"
| "Join [x] sep = x"
| "Join (x # y # ys) sep = x @ sep @ Join (y # ys) sep"

text \<open>
  \<^verbatim>\<open>fmt.Fprintf\<close> with a format string and no operand. A format string without a percent
  sign is written as it is. What package fmt writes for a format string that has one is
  not code of this program: it is the parameter \<open>verbs\<close>. Calls whose format string is a
  literal of gen.go and whose operands are strings or integers are written out below as
  the concatenation they produce.
\<close>

definition Fprintf0 :: "(string \<Rightarrow> string) \<Rightarrow> string \<Rightarrow> string" where
  "Fprintf0 verbs format = (if CHR ''%'' \<in> set format then verbs format else format)"

section \<open>The code builder (gen/gen.go)\<close>

text \<open>
  A Go map from package path to alias. The model is an association list with distinct
  keys in order of insertion: \<open>map_of\<close> is the lookup, \<open>length\<close> is \<^verbatim>\<open>len\<close>. The
  iteration order of a Go map is not fixed; the only loop over the map, in
  \<open>writeImports\<close>, sorts what it collects (see \<open>importLines_order_irrelevant\<close>).
\<close>

type_synonym importMap = "(string \<times> string) list"

record builder =
  buf :: string
  importMap :: importMap

text \<open>Appending formatted text to the builder's buffer (\<^verbatim>\<open>Write\<close>, \<^verbatim>\<open>WriteLine\<close> with
  the format already applied).\<close>

definition emit :: "builder \<Rightarrow> string \<Rightarrow> builder" where
  "emit b s = b\<lparr>buf := buf b @ s\<rparr>"

subsection \<open>generateMethodSig\<close>

fun paramsLoop :: "nat \<Rightarrow> string list \<Rightarrow> nat \<Rightarrow> string \<Rightarrow> string" where
  "paramsLoop n [] i b = b"
| "paramsLoop n (p # ps) i b =
     (let b1 = b @ ''p'' @ dec i @ '' '' @ p;
          b2 = (if int i < int n - 1 then b1 @ '', '' else b1)
      in paramsLoop n ps (i + 1) b2)"

fun returnsLoop :: "string list \<Rightarrow> nat \<Rightarrow> string \<Rightarrow> string" where
  "returnsLoop [] i b = b"
| "returnsLoop (r # rs) i b =
     (let b1 = (if i > 0 then b @ '', '' else b)
      in returnsLoop rs (i + 1) (b1 @ r))"

definition generateMethodSig ::
  "string \<Rightarrow> string \<Rightarrow> string \<Rightarrow> string list \<Rightarrow> string list \<Rightarrow> string" where
  "generateMethodSig b implementor methodName params returns =
     (let b1 = (if implementor \<noteq> [] then b @ ''(t '' @ implementor @ '') '' else b);
          b2 = b1 @ methodName @ ''('';
          b3 = paramsLoop (length params) params 0 b2;
          b4 = b3 @ '')'';
          b5 = (if length returns > 0 then b4 @ '' '' else b4);
          b6 = (if length returns > 1 then b5 @ ''('' else b5);
          b7 = returnsLoop returns 0 b6
      in if length returns > 1 then b7 @ '')'' else b7)"

subsection \<open>resolveParam and resolveParams\<close>

text \<open>\<open>methodsLoop\<close> is the loop of the branch for two or more methods: a newline, then
  the signature, for each method in turn.\<close>

fun resolveParam :: "importMap \<Rightarrow> param \<Rightarrow> string"
and resolveParams :: "importMap \<Rightarrow> param list \<Rightarrow> string list"
and methodsLoop :: "importMap \<Rightarrow> Method list \<Rightarrow> string"
where
  "resolveParam im (BasicParam typ) = typ"
| "resolveParam im (NamedParam pkg typ) =
     (if pkg \<noteq> [] then
        (case map_of im pkg of
           Some alias \<Rightarrow> alias @ ''.'' @ typ
         | None \<Rightarrow> typ)
      else typ)"
| "resolveParam im (ArrayParam typ len) = ''['' @ itoa len @ '']'' @ resolveParam im typ"
| "resolveParam im (SliceParam typ) = ''[]'' @ resolveParam im typ"
| "resolveParam im (PointerParam typ) = ''*'' @ resolveParam im typ"
| "resolveParam im (MapParam key elem) =
     ''map['' @ resolveParam im key @ '']'' @ resolveParam im elem"
| "resolveParam im (InterfaceParam []) = ''interface{}''"
| "resolveParam im (InterfaceParam [Method name ps rs]) =
     generateMethodSig ''interface{ '' [] name (resolveParams im ps) (resolveParams im rs)
       @ '' }''"
| "resolveParam im (InterfaceParam (m1 # m2 # ms)) =
     ''interface {'' @ methodsLoop im (m1 # m2 # ms) @ ''\<newline>},\<newline>''"
| "resolveParam im (OtherParam dyn) = ''<unsupported>''"
| "resolveParams im [] = []"
| "resolveParams im (p # ps) = resolveParam im p # resolveParams im ps"
| "methodsLoop im [] = []"
| "methodsLoop im (Method name ps rs # ms) =
     generateMethodSig ''\<newline>'' [] name (resolveParams im ps) (resolveParams im rs)
       @ methodsLoop im ms"

subsection \<open>resolvePackages, resolveMethodPackages and buildImportMap\<close>

fun resolvePackages :: "param \<Rightarrow> string list"
and paramsPackages :: "param list \<Rightarrow> string list"
and resolveMethodPackages :: "Method list \<Rightarrow> string list"
where
  "resolvePackages (NamedParam pkg typ) = (if pkg = [] then [] else [pkg])"
| "resolvePackages (ArrayParam typ len) = resolvePackages typ"
| "resolvePackages (SliceParam typ) = resolvePackages typ"
| "resolvePackages (PointerParam typ) = resolvePackages typ"
| "resolvePackages (MapParam key elem) = resolvePackages key @ resolvePackages elem"
| "resolvePackages (InterfaceParam ms) = resolveMethodPackages ms"
| "resolvePackages (BasicParam typ) = []"
| "resolvePackages (OtherParam dyn) = []"
| "paramsPackages [] = []"
| "paramsPackages (p # ps) = resolvePackages p @ paramsPackages ps"
| "resolveMethodPackages [] = []"
| "resolveMethodPackages (Method name ps rs # ms) =
     paramsPackages ps @ paramsPackages rs @ resolveMethodPackages ms"

fun addPackages :: "string \<Rightarrow> string list \<Rightarrow> importMap \<Rightarrow> importMap" where
  "addPackages self [] im = im"
| "addPackages self (p # ps) im =
     (if p = self then addPackages self ps im
      else if map_of im p = None
        then addPackages self ps (im @ [(p, ''i'' @ dec (length im))])
        else addPackages self ps im)"

fun interfacesLoop :: "string \<Rightarrow> Interface list \<Rightarrow> importMap \<Rightarrow> importMap" where
  "interfacesLoop self [] im = im"
| "interfacesLoop self (i # is) im =
     interfacesLoop self is (addPackages self (resolveMethodPackages (iface_Methods i)) im)"

definition buildImportMap :: "Package \<Rightarrow> importMap" where
  "buildImportMap pkg = interfacesLoop (pkg_PkgPath pkg) (pkg_Interfaces pkg) []"

subsection \<open>writeImports and NewBuilder\<close>

text \<open>\<open>NewBuilder\<close> and \<open>buildImportMap\<close> take a pointer to the package; the model takes
  the package it points to (with a nil pointer both panic on the first field they read,
  before any text is written).\<close>

definition importLine :: "string \<times> string \<Rightarrow> string" where
  \<open>importLine e = ''import '' @ snd e @ '' "'' @ fst e @ ''"''\<close>

text \<open>The slice \<^verbatim>\<open>imports\<close> after \<^verbatim>\<open>sort.Strings\<close>: bytewise lexicographic order of the
  whole lines.\<close>

definition importLines :: "importMap \<Rightarrow> string list" where
  "importLines im = sort (map importLine im)"

definition writeImports :: "(string \<Rightarrow> string) \<Rightarrow> builder \<Rightarrow> builder" where
  "writeImports verbs b =
     (let imports = importLines (importMap b);
          b1 = emit b (Fprintf0 verbs (Join imports ''\<newline>''))
      in if length imports > 0 then emit b1 ''\<newline>'' else b1)"

definition NewBuilder :: "(string \<Rightarrow> string) \<Rightarrow> Package \<Rightarrow> builder" where
  "NewBuilder verbs pkg =
     (let b = \<lparr>buf = [], importMap = buildImportMap pkg\<rparr>;
          b1 = emit b ''// Code generated by tracer v0.0.1. DO NOT EDIT.\<newline>'';
          b2 = emit b1 (''package '' @ pkg_Name pkg @ ''\<newline>'')
      in writeImports verbs b2)"

subsection \<open>WriteStruct and WriteMethod\<close>

fun attrsLoop :: "builder \<Rightarrow> Attr list \<Rightarrow> builder" where
  "attrsLoop b [] = b"
| "attrsLoop b (a # as) =
     attrsLoop (emit b (attr_Name a @ '' '' @ resolveParam (importMap b) (attr_Type a)
                          @ ''\<newline>'')) as"

definition WriteStruct :: "builder \<Rightarrow> Struct \<Rightarrow> builder" where
  "WriteStruct b strct =
     (let b1 = emit b (''\<newline>type '' @ strct_Name strct @ '' struct {\<newline>'');
          b2 = attrsLoop b1 (strct_Attrs strct)
      in emit b2 ''}\<newline>'')"

definition WriteMethod ::
  "builder \<Rightarrow> Struct option \<Rightarrow> Method \<Rightarrow> (builder \<Rightarrow> builder) \<Rightarrow> builder" where
  "WriteMethod b strct m callback =
     (let b1 = emit b ''\<newline>func '';
          b2 = (case strct of None \<Rightarrow> b1
                | Some s \<Rightarrow> emit b1 (''(t '' @ strct_Name s @ '') ''));
          b3 = b2\<lparr>buf := generateMethodSig (buf b2) [] (m_Name m)
                     (resolveParams (importMap b2) (m_Params m))
                     (resolveParams (importMap b2) (m_Returns m))\<rparr>;
          b4 = emit b3 '' {\<newline>'';
          b5 = callback b4
      in emit b5 ''}\<newline>'')"

subsection \<open>WriteTo\<close>

text \<open>
  \<^verbatim>\<open>format.Source\<close> (gofmt) and the destination \<^verbatim>\<open>io.Writer\<close> are not code of this
  program: both are parameters. \<open>formatSource\<close> returns the reformatted text or an error;
  \<open>wWrite\<close> takes the writer's state and the bytes and returns the new state, the count
  and the error of \<^verbatim>\<open>w.Write\<close>.
\<close>

definition WriteTo ::
  "(string \<Rightarrow> 'e + string) \<Rightarrow> ('w \<Rightarrow> string \<Rightarrow> 'w \<times> int \<times> 'e option) \<Rightarrow>
   builder \<Rightarrow> 'w \<Rightarrow> 'w \<times> int \<times> 'e option" where
  "WriteTo formatSource wWrite b w =
     (case formatSource (buf b) of
        Inl err \<Rightarrow> (w, 0, Some err)
      | Inr formatted \<Rightarrow> wWrite w formatted)"

section \<open>Notions the properties are stated with\<close>

text \<open>The seven variants a type switch of gen.go has a case for.\<close>

fun recognized :: "param \<Rightarrow> bool" where
  "recognized (OtherParam dyn) = False"
| "recognized p = True"

text \<open>The signature text of one method of an anonymous interface, written to an empty
  buffer with no implementor.\<close>

definition methodSig :: "importMap \<Rightarrow> Method \<Rightarrow> string" where
  "methodSig im m =
     generateMethodSig [] [] (m_Name m) (resolveParams im (m_Params m))
       (resolveParams im (m_Returns m))"

text \<open>One synthesized parameter, \<^verbatim>\<open>p<k> <type>\<close>.\<close>

definition paramDecl :: "nat \<times> string \<Rightarrow> string" where
  "paramDecl kp = ''p'' @ dec (fst kp) @ '' '' @ snd kp"

text \<open>The text of a signature up to and including the closing parenthesis of the
  parameter list.\<close>

definition sigHead :: "string \<Rightarrow> string \<Rightarrow> string \<Rightarrow> string list \<Rightarrow> string" where
  "sigHead b implementor methodName params =
     b @ (if implementor = [] then [] else ''(t '' @ implementor @ '') '')
       @ methodName @ ''('' @ Join (map paramDecl (enumerate 0 params)) '', '' @ '')''"

text \<open>The rendering of an anonymous interface as the specification words it: the
  literal for no method, the inline form for one, and for two or more an opening line,
  one signature per line and the closing brace, nothing after it.\<close>

definition spec_interfaceText :: "importMap \<Rightarrow> Method list \<Rightarrow> string" where
  "spec_interfaceText im ms =
     (case ms of
        [] \<Rightarrow> ''interface{}''
      | [m] \<Rightarrow> ''interface{ '' @ methodSig im m @ '' }''
      | _ \<Rightarrow> ''interface {\<newline>'' @ concat (map (\<lambda>m. methodSig im m @ ''\<newline>'') ms) @ ''}'')"

text \<open>A package with one interface \<^verbatim>\<open>Client\<close> and one method
  \<^verbatim>\<open>Get(context.Context, store.Key) (int, error)\<close>, the second parameter being of the
  package itself.\<close>

definition pkgClient :: Package where
  "pkgClient =
     \<lparr>pkg_Name = ''store'', pkg_PkgPath = ''example.com/store'',
      pkg_Interfaces =
        [\<lparr>iface_Name = ''Client'',
          iface_Methods =
            [Method ''Get''
               [NamedParam ''context'' ''Context'', NamedParam ''example.com/store'' ''Key'']
               [BasicParam ''int'', BasicParam ''error'']]\<rparr>],
      pkg_Structs = []\<rparr>"

text \<open>The import map the specification describes: the packages of the named types of
  every interface, in order (interfaces, then methods, parameters before returns), the
  package's own path left out, duplicates dropped at their first occurrence, numbered
  \<^verbatim>\<open>i0\<close>, \<^verbatim>\<open>i1\<close>, \<^verbatim>\<open>i2\<close> and so on.\<close>

definition aliasOf :: "nat \<Rightarrow> string" where
  "aliasOf k = ''i'' @ dec k"

definition numbered :: "string list \<Rightarrow> importMap" where
  "numbered ks = zip ks (map aliasOf [0..<length ks])"

definition ins :: "string list \<Rightarrow> string \<Rightarrow> string list" where
  "ins seen p = (if p \<in> set seen then seen else seen @ [p])"

definition firstSeen :: "string list \<Rightarrow> string list" where
  "firstSeen ps = foldl ins [] ps"

text \<open>
  The traversal as the specification words it, apart from \<open>resolvePackages\<close>: the
  named type parameters met in a type parameter, in order, descending through the
  element types of arrays, slices, pointers and maps (key before value) and through the
  methods of an anonymous interface (method by method, parameters before returns). The
  packages discovered are those of the named parameters met, the empty package (a type
  of the target package itself, not a foreign one) left out.
\<close>

fun spec_isNamed :: "param \<Rightarrow> bool" where
  "spec_isNamed (NamedParam pk ty) = True"
| "spec_isNamed p = False"

fun spec_package :: "param \<Rightarrow> string" where
  "spec_package (NamedParam pk ty) = pk"
| "spec_package p = []"

fun spec_children :: "param \<Rightarrow> param list" where
  "spec_children (ArrayParam elem len) = [elem]"
| "spec_children (SliceParam elem) = [elem]"
| "spec_children (PointerParam referent) = [referent]"
| "spec_children (MapParam key val) = [key, val]"
| "spec_children (InterfaceParam ms) = concat (map (\<lambda>m. m_Params m @ m_Returns m) ms)"
| "spec_children p = []"

function spec_namedIn :: "param \<Rightarrow> param list" where
  "spec_namedIn p =
     (if spec_isNamed p then [p] else concat (map spec_namedIn (spec_children p)))"
  by pat_completeness auto
termination
proof (relation "measure size")
  show "wf (measure size)" by simp
next
  fix p c :: param
  assume "c \<in> set (spec_children p)"
  then have "size c < size p"
  proof (cases p)
    case (InterfaceParam ms)
    assume "c \<in> set (spec_children p)"
    then obtain m where m: "m \<in> set ms"
      and c: "c \<in> set (m_Params m) \<union> set (m_Returns m)"
      using InterfaceParam by auto
    have "size c < size m"
    proof (cases m)
      case (Method n ps rs)
      from c have "c \<in> set ps \<or> c \<in> set rs" by (simp add: Method)
      then show ?thesis
      proof
        assume "c \<in> set ps"
        then have "size c \<le> size_list size ps" by (rule size_list_estimation') simp
        then show ?thesis by (simp add: Method)
      next
        assume "c \<in> set rs"
        then have "size c \<le> size_list size rs" by (rule size_list_estimation') simp
        then show ?thesis by (simp add: Method)
      qed
    qed
    moreover have "size m \<le> size_list size ms" using m by (rule size_list_estimation') simp
    ultimately show ?thesis by (simp add: InterfaceParam)
  qed auto
  then show "(c, p) \<in> measure size" by simp
qed

declare spec_namedIn.simps [simp del]

definition namedPackages :: "param list \<Rightarrow> string list" where
  "namedPackages ps = filter (\<lambda>pk. pk \<noteq> []) (map spec_package ps)"

definition spec_discovered :: "Package \<Rightarrow> string list" where
  "spec_discovered pkg =
     namedPackages
       (concat (map (\<lambda>i.
          concat (map (\<lambda>m. concat (map spec_namedIn (m_Params m @ m_Returns m)))
                   (iface_Methods i)))
          (pkg_Interfaces pkg)))"

definition spec_importMap :: "Package \<Rightarrow> importMap" where
  "spec_importMap pkg =
     numbered (firstSeen (filter (\<lambda>p. p \<noteq> pkg_PkgPath pkg) (spec_discovered pkg)))"

text \<open>Reading a decimal numeral back.\<close>

definition undec :: "string \<Rightarrow> nat" where
  "undec s = foldl (\<lambda>a c. 10 * a + (of_char c - 48)) 0 s"

text \<open>A package named \<^verbatim>\<open>i0\<close> whose interface mentions package \<^verbatim>\<open>context\<close>.\<close>

definition pkgI0 :: Package where
  "pkgI0 =
     \<lparr>pkg_Name = ''i0'', pkg_PkgPath = ''example.com/i0'',
      pkg_Interfaces =
        [\<lparr>iface_Name = ''Client'',
          iface_Methods = [Method ''Get'' [NamedParam ''context'' ''Context''] []]\<rparr>],
      pkg_Structs = []\<rparr>"

text \<open>A package whose methods mention packages inside slices, pointers, maps, arrays
  and an anonymous interface, a type of the package itself among them.\<close>

definition pkgNested :: Package where
  "pkgNested =
     \<lparr>pkg_Name = ''store'', pkg_PkgPath = ''example.com/store'',
      pkg_Interfaces =
        [\<lparr>iface_Name = ''Reader'',
          iface_Methods =
            [Method ''Read''
               [SliceParam (PointerParam (NamedParam ''bytes'' ''Buffer'')),
                MapParam (NamedParam ''example.com/store'' ''Key'')
                  (ArrayParam (NamedParam ''time'' ''Time'') 4)]
               [InterfaceParam
                  [Method ''Done'' [NamedParam ''context'' ''Context'']
                     [NamedParam ''bytes'' ''Reader'']]]]\<rparr>,
         \<lparr>iface_Name = ''Closer'',
          iface_Methods =
            [Method ''Close'' [NamedParam ''time'' ''Duration'']
               [NamedParam ''io'' ''Closer'']]\<rparr>],
      pkg_Structs = []\<rparr>"

text \<open>The import lines in the order the specification gives them: by package path.\<close>

definition spec_importLines :: "importMap \<Rightarrow> string list" where
  "spec_importLines im = map importLine (sort_key fst im)"

text \<open>A package whose interface has the method
  \<^verbatim>\<open>namedAndBasicTypes(context.Context, int, bytes.Buffer)\<close>.\<close>

definition pkgBytes :: Package where
  "pkgBytes =
     \<lparr>pkg_Name = ''testdata'', pkg_PkgPath = ''example.com/testdata'',
      pkg_Interfaces =
        [\<lparr>iface_Name = ''methodsWithContext'',
          iface_Methods =
            [Method ''namedAndBasicTypes''
               [NamedParam ''context'' ''Context'', BasicParam ''int'',
                NamedParam ''bytes'' ''Buffer''] []]\<rparr>],
      pkg_Structs = []\<rparr>"

text \<open>The line \<open>WriteStruct\<close> writes for one attribute.\<close>

definition attrLine :: "importMap \<Rightarrow> Attr \<Rightarrow> string" where
  "attrLine im a = attr_Name a @ '' '' @ resolveParam im (attr_Type a) @ ''\<newline>''"

text \<open>The builder \<open>NewBuilder\<close> makes from \<open>pkgClient\<close>, and a struct with one attribute
  of a package the import map holds and one of a package it does not hold.\<close>

definition builderClient :: builder where
  \<open>builderClient =
     \<lparr>buf = ''// Code generated by tracer v0.0.1. DO NOT EDIT.\<newline>''
              @ ''package store\<newline>import i0 "context"\<newline>'',
      importMap = [(''context'', ''i0'')]\<rparr>\<close>

definition strctClient :: Struct where
  "strctClient =
     \<lparr>strct_Name = ''client'',
      strct_Attrs =
        [\<lparr>attr_Name = ''ctx'', attr_Type = NamedParam ''context'' ''Context''\<rparr>,
         \<lparr>attr_Name = ''out'', attr_Type = PointerParam (NamedParam ''bytes'' ''Buffer'')\<rparr>]\<rparr>"

section \<open>Finalize, the sentinel and a nested type\<close>

text \<open>
  C7. Resolving \<^verbatim>\<open>Slice{Pointer{Named{Package:"p", Name:"T"}}}\<close> against the import map
  \<^verbatim>\<open>{"p": "i0"}\<close> gives exactly the text \<^verbatim>\<open>[]*i0.T\<close>.
\<close>

theorem resolveParam_slice_pointer_named:
  "resolveParam [(''p'', ''i0'')] (SliceParam (PointerParam (NamedParam ''p'' ''T'')))
     = ''[]*i0.T''"
  by simp

text \<open>
  C8. Resolution is a total function, and a parameter that is none of the seven
  recognized variants resolves to the fixed sentinel \<^verbatim>\<open><unsupported>\<close>, whatever the
  import map.
\<close>

theorem resolveParam_unsupported:
  "\<not> recognized p \<Longrightarrow> resolveParam im p = ''<unsupported>''"
  by (cases p) simp_all

theorem resolveParam_unsupported_witness:
  "\<not> recognized (OtherParam ''FuncParam'')
   \<and> resolveParam [(''p'', ''i0'')] (OtherParam ''FuncParam'') = ''<unsupported>''"
  using resolveParam_unsupported [of "OtherParam ''FuncParam''" "[(''p'', ''i0'')]"]
  by simp

text \<open>
  C9. When \<^verbatim>\<open>format.Source\<close> rejects the buffer, \<open>WriteTo\<close> returns that error with a
  count of 0 and leaves the writer as it was: \<^verbatim>\<open>w.Write\<close> is not called. When it
  accepts, the result is that of one call of \<^verbatim>\<open>w.Write\<close> on the whole reformatted text.
\<close>

theorem WriteTo_atomic:
  "(formatSource (buf b) = Inl err \<longrightarrow>
      WriteTo formatSource wWrite b w = (w, 0, Some err))
   \<and> (formatSource (buf b) = Inr formatted \<longrightarrow>
      WriteTo formatSource wWrite b w = wWrite w formatted)"
  by (simp add: WriteTo_def)

theorem WriteTo_atomic_witness:
  "WriteTo (\<lambda>s. if s = ''func'' then Inl ''expected name'' else Inr (s @ ''\<newline>''))
     (\<lambda>w s. (w @ s, int (length s), None)) \<lparr>buf = ''func'', importMap = []\<rparr> ''old''
     = (''old'', 0, Some ''expected name'')
   \<and> WriteTo (\<lambda>s. if s = ''func'' then Inl ''expected name'' else Inr (s @ ''\<newline>''))
     (\<lambda>w s. (w @ s, int (length s), None)) \<lparr>buf = ''package a'', importMap = []\<rparr> ''old''
     = (''oldpackage a\<newline>'', 10, None)"
  using
    WriteTo_atomic [of "\<lambda>s. if s = ''func'' then Inl ''expected name'' else Inr (s @ ''\<newline>'')"
      "\<lparr>buf = ''func'', importMap = []\<rparr>" "''expected name''"
      "\<lambda>w s. (w @ s, int (length s), None)" "''old''" "''x''"]
    WriteTo_atomic [of "\<lambda>s. if s = ''func'' then Inl ''expected name'' else Inr (s @ ''\<newline>'')"
      "\<lparr>buf = ''package a'', importMap = []\<rparr>" "''e''"
      "\<lambda>w s. (w @ s, int (length s), None)" "''old''" "''package a\<newline>''"]
  by simp

section \<open>Method signatures\<close>

lemma paramsLoop_append: "paramsLoop n ps i b = b @ paramsLoop n ps i []"
proof (induction ps arbitrary: i b)
  case Nil show ?case by simp
next
  case (Cons p ps)
  show ?case
    by (simp add: Let_def Cons.IH [of _ "_ @ _"] Cons.IH [of _ "CHR ''p'' # _"])
qed

lemma returnsLoop_append: "returnsLoop rs i b = b @ returnsLoop rs i []"
proof (induction rs arbitrary: i b)
  case Nil show ?case by simp
next
  case (Cons r rs)
  show ?case
    by (simp add: Let_def Cons.IH [of _ "_ @ _"] Cons.IH [of _ "CHR '','' # _"])
qed

lemma returnsLoop_pos:
  "i > 0 \<Longrightarrow> returnsLoop rs i [] = concat (map (\<lambda>r. '', '' @ r) rs)"
proof (induction rs arbitrary: i)
  case Nil show ?case by simp
next
  case (Cons r rs)
  then show ?case using returnsLoop_append [of rs "Suc i" "'', '' @ r"] by simp
qed

lemma Join_Cons: "Join (r # rs) sep = r @ concat (map (\<lambda>x. sep @ x) rs)"
  by (induction rs arbitrary: r) simp_all

lemma returnsLoop_Join: "returnsLoop rs 0 [] = Join rs '', ''"
proof (cases rs)
  case Nil then show ?thesis by simp
next
  case (Cons r rs')
  then show ?thesis
    using returnsLoop_append [of rs' "Suc 0" r] returnsLoop_pos [of "Suc 0" rs']
    by (simp add: Join_Cons)
qed

lemma paramsLoop_Join:
  "n = i + length ps \<Longrightarrow>
   paramsLoop n ps i [] = Join (map paramDecl (enumerate i ps)) '', ''"
proof (induction ps arbitrary: i)
  case Nil show ?case by simp
next
  case (Cons p ps)
  show ?case
  proof (cases ps)
    case Nil
    with Cons.prems show ?thesis by (simp add: paramDecl_def)
  next
    case (Cons q qs)
    have n: "n = Suc i + length ps" using Cons.prems by simp
    have lt: "int i < int n - 1" using Cons.prems Cons by simp
    have "paramsLoop n (p # ps) i [] = paramsLoop n ps (Suc i) (paramDecl (i, p) @ '', '')"
      using lt by (simp add: paramDecl_def)
    also have "\<dots> = paramDecl (i, p) @ '', '' @ paramsLoop n ps (Suc i) []"
      using paramsLoop_append [of n ps "Suc i" "paramDecl (i, p) @ '', ''"] by simp
    also have "\<dots> = paramDecl (i, p) @ '', ''
                      @ Join (map paramDecl (enumerate (Suc i) ps)) '', ''"
      using Cons.IH [OF n] by simp
    finally show ?thesis using Cons by simp
  qed
qed

lemma generateMethodSig_closed:
  "generateMethodSig b impl name params returns =
     sigHead b impl name params
       @ (if returns = [] then [] else
          if length returns > 1 then '' ('' @ Join returns '', '' @ '')''
          else '' '' @ Join returns '', '')"
proof -
  have p: "paramsLoop (length params) params 0 x
             = x @ Join (map paramDecl (enumerate 0 params)) '', ''" for x
    using paramsLoop_append [of "length params" params 0 x]
      paramsLoop_Join [of "length params" 0 params]
    by simp
  have r: "returnsLoop returns 0 x = x @ Join returns '', ''" for x
    using returnsLoop_append [of returns 0 x] returnsLoop_Join [of returns] by simp
  show ?thesis
    by (simp add: generateMethodSig_def sigHead_def Let_def p r)
qed

lemma generateMethodSig_append:
  "generateMethodSig b impl name params returns
     = b @ generateMethodSig [] impl name params returns"
  by (simp add: generateMethodSig_closed sigHead_def)

text \<open>
  C6. After the closing parenthesis of the parameter list, a signature with no return
  has nothing; with one return it has a space and that type, without parentheses; with
  two or more it has a space and the types joined by \<^verbatim>\<open>, \<close> inside one pair of
  parentheses.
\<close>

theorem generateMethodSig_returns:
  "(returns = [] \<longrightarrow>
      generateMethodSig b impl name params returns = sigHead b impl name params)
   \<and> (\<forall>r. returns = [r] \<longrightarrow>
      generateMethodSig b impl name params returns = sigHead b impl name params @ '' '' @ r)
   \<and> (2 \<le> length returns \<longrightarrow>
      generateMethodSig b impl name params returns =
        sigHead b impl name params @ '' ('' @ Join returns '', '' @ '')'')"
  by (simp add: generateMethodSig_closed)

theorem generateMethodSig_returns_witness:
  "generateMethodSig [] [] ''Get'' [''i0.Context'', ''string''] []
     = ''Get(p0 i0.Context, p1 string)''
   \<and> generateMethodSig [] [] ''Get'' [''i0.Context'', ''string''] [''int'']
     = ''Get(p0 i0.Context, p1 string) int''
   \<and> 2 \<le> length [''int'', ''error'']
   \<and> generateMethodSig [] [] ''Get'' [''i0.Context'', ''string''] [''int'', ''error'']
     = ''Get(p0 i0.Context, p1 string) (int, error)''"
  using
    generateMethodSig_returns [of "[]" "[]" "[]" "''Get''" "[''i0.Context'', ''string'']"]
    generateMethodSig_returns [of "[''int'']" "[]" "[]" "''Get''"
      "[''i0.Context'', ''string'']"]
    generateMethodSig_returns [of "[''int'', ''error'']" "[]" "[]" "''Get''"
      "[''i0.Context'', ''string'']"]
  by (simp add: sigHead_def paramDecl_def enumerate_eq_zip digit_def dec.simps)

section \<open>Anonymous interfaces\<close>

lemma methodsLoop_concat:
  "methodsLoop im ms = concat (map (\<lambda>m. ''\<newline>'' @ methodSig im m) ms)"
proof (induction ms)
  case Nil show ?case by simp
next
  case (Cons m ms)
  obtain name ps rs where m: "m = Method name ps rs" by (cases m)
  show ?case
    using Cons.IH
      generateMethodSig_append [of "''\<newline>''" "[]" name "resolveParams im ps"
        "resolveParams im rs"]
    by (simp add: m methodSig_def)
qed

lemma resolveParam_interface_closed:
  "resolveParam im (InterfaceParam []) = ''interface{}''
   \<and> resolveParam im (InterfaceParam [m]) = ''interface{ '' @ methodSig im m @ '' }''
   \<and> (2 \<le> length ms \<longrightarrow>
        resolveParam im (InterfaceParam ms) =
          ''interface {'' @ concat (map (\<lambda>m. ''\<newline>'' @ methodSig im m) ms)
            @ ''\<newline>},\<newline>'')"
proof (intro conjI impI)
  show "resolveParam im (InterfaceParam []) = ''interface{}''" by simp
next
  obtain name ps rs where m: "m = Method name ps rs" by (cases m)
  show "resolveParam im (InterfaceParam [m]) = ''interface{ '' @ methodSig im m @ '' }''"
    using generateMethodSig_append [of "''interface{ ''" "[]" name "resolveParams im ps"
        "resolveParams im rs"]
    by (simp add: m methodSig_def)
next
  assume "2 \<le> length ms"
  then obtain m1 m2 rest where ms: "ms = m1 # m2 # rest"
    by (cases ms; cases "tl ms") auto
  have "resolveParam im (InterfaceParam (m1 # m2 # rest)) =
          ''interface {'' @ methodsLoop im (m1 # m2 # rest) @ ''\<newline>},\<newline>''"
    by simp
  then show "resolveParam im (InterfaceParam ms) =
          ''interface {'' @ concat (map (\<lambda>m. ''\<newline>'' @ methodSig im m) ms)
            @ ''\<newline>},\<newline>''"
    unfolding ms methodsLoop_concat by simp
qed

text \<open>
  C3. The claim holds for no method and for one method (\<open>resolveParam_interface_closed\<close>).
  For two methods the code departs from it: the text it gives ends in \<^verbatim>\<open>},\<close> and a
  newline, not in the closing brace, so that a signature with such a parameter before
  another one reads \<^verbatim>\<open>},\<close>, newline, \<^verbatim>\<open>, p1 int\<close>.
\<close>

theorem resolveParam_interface_two_methods:
  "resolveParam [] (InterfaceParam [Method ''A'' [] [], Method ''B'' [] []])
     = ''interface {\<newline>A()\<newline>B()\<newline>},\<newline>''
   \<and> spec_interfaceText [] [Method ''A'' [] [], Method ''B'' [] []]
     = ''interface {\<newline>A()\<newline>B()\<newline>}''
   \<and> resolveParam [] (InterfaceParam [Method ''A'' [] [], Method ''B'' [] []])
     \<noteq> spec_interfaceText [] [Method ''A'' [] [], Method ''B'' [] []]
   \<and> generateMethodSig [] [] ''f''
        (resolveParams []
          [InterfaceParam [Method ''A'' [] [], Method ''B'' [] []], BasicParam ''int'']) []
     = ''f(p0 interface {\<newline>A()\<newline>B()\<newline>},\<newline>, p1 int)''"
  by (simp add: spec_interfaceText_def methodSig_def generateMethodSig_def digit_def
      dec.simps)

section \<open>The import map\<close>

lemma addPackages_keys:
  "fst ` set (addPackages self ps im) \<subseteq> fst ` set im \<union> (set ps - {self})"
proof (induction ps arbitrary: im)
  case Nil show ?case by simp
next
  case (Cons p ps)
  show ?case
  proof (cases "p \<noteq> self \<and> map_of im p = None")
    case True
    have "fst ` set (addPackages self ps (im @ [(p, ''i'' @ dec (length im))]))
            \<subseteq> fst ` set (im @ [(p, ''i'' @ dec (length im))]) \<union> (set ps - {self})"
      by (rule Cons.IH)
    with True show ?thesis by auto
  next
    case False
    then have "addPackages self (p # ps) im = addPackages self ps im" by auto
    with Cons.IH [of im] show ?thesis by auto
  qed
qed

lemma interfacesLoop_self:
  "self \<notin> fst ` set im \<Longrightarrow> self \<notin> fst ` set (interfacesLoop self is im)"
proof (induction "is" arbitrary: im)
  case Nil then show ?case by simp
next
  case (Cons i "is")
  have "self \<notin> fst ` set (addPackages self (resolveMethodPackages (iface_Methods i)) im)"
    using addPackages_keys [of self "resolveMethodPackages (iface_Methods i)" im] Cons.prems
    by auto
  then show ?case using Cons.IH by simp
qed

lemma buildImportMap_self: "map_of (buildImportMap pkg) (pkg_PkgPath pkg) = None"
  using interfacesLoop_self [of "pkg_PkgPath pkg" "[]" "pkg_Interfaces pkg"]
  by (simp add: buildImportMap_def map_of_eq_None_iff)

lemma numbered_snoc: "numbered (ks @ [k]) = numbered ks @ [(k, aliasOf (length ks))]"
  by (simp add: numbered_def)

lemma fst_numbered: "map fst (numbered ks) = ks"
  by (simp add: numbered_def)

lemma snd_numbered: "map snd (numbered ks) = map aliasOf [0..<length ks]"
  by (simp add: numbered_def)

lemma map_of_numbered: "map_of (numbered ks) p = None \<longleftrightarrow> p \<notin> set ks"
  using fst_numbered [of ks] by (simp add: map_of_eq_None_iff) (metis list.set_map)

lemma length_numbered: "length (numbered ks) = length ks"
  by (simp add: numbered_def)

lemma addPackages_numbered:
  "addPackages self ps (numbered ks) = numbered (foldl ins ks (filter (\<lambda>p. p \<noteq> self) ps))"
proof (induction ps arbitrary: ks)
  case Nil show ?case by simp
next
  case (Cons p ps)
  show ?case
  proof (cases "p = self")
    case True
    then show ?thesis using Cons.IH [of ks] by simp
  next
    case False
    show ?thesis
    proof (cases "p \<in> set ks")
      case True
      then obtain a where "map_of (numbered ks) p = Some a"
        using map_of_numbered [of ks p] by auto
      then have "addPackages self (p # ps) (numbered ks) = addPackages self ps (numbered ks)"
        using \<open>p \<noteq> self\<close> by simp
      moreover have "ins ks p = ks" using True by (simp add: ins_def)
      ultimately show ?thesis using \<open>p \<noteq> self\<close> Cons.IH [of ks] by simp
    next
      case notin: False
      then have "map_of (numbered ks) p = None" by (simp add: map_of_numbered)
      then have "addPackages self (p # ps) (numbered ks)
                   = addPackages self ps (numbered (ks @ [p]))"
        using \<open>p \<noteq> self\<close> by (simp add: numbered_snoc length_numbered aliasOf_def)
      moreover have "ins ks p = ks @ [p]" using notin by (simp add: ins_def)
      ultimately show ?thesis using \<open>p \<noteq> self\<close> Cons.IH [of "ks @ [p]"] by simp
    qed
  qed
qed

lemma interfacesLoop_numbered:
  "interfacesLoop self is (numbered ks) =
     numbered (foldl ins ks (filter (\<lambda>p. p \<noteq> self)
       (concat (map (\<lambda>i. resolveMethodPackages (iface_Methods i)) is))))"
proof (induction "is" arbitrary: ks)
  case Nil show ?case by simp
next
  case (Cons i "is")
  show ?case by (simp add: addPackages_numbered Cons.IH)
qed

lemma namedPackages_append: "namedPackages (xs @ ys) = namedPackages xs @ namedPackages ys"
  by (simp add: namedPackages_def)

lemma namedPackages_concat: "namedPackages (concat xss) = concat (map namedPackages xss)"
  by (induction xss) (simp_all add: namedPackages_def)

lemma concat_map_children:
  "concat (map f (concat (map g ms))) = concat (map (\<lambda>m. concat (map f (g m))) ms)"
  by (induction ms) simp_all

lemma spec_namedIn_cases:
  "spec_namedIn (NamedParam pk ty) = [NamedParam pk ty]"
  "spec_namedIn (BasicParam ty) = []"
  "spec_namedIn (OtherParam dyn) = []"
  "spec_namedIn (ArrayParam elem len) = spec_namedIn elem"
  "spec_namedIn (SliceParam elem) = spec_namedIn elem"
  "spec_namedIn (PointerParam elem) = spec_namedIn elem"
  "spec_namedIn (MapParam key val) = spec_namedIn key @ spec_namedIn val"
  "spec_namedIn (InterfaceParam ms) =
     concat (map (\<lambda>m. concat (map spec_namedIn (m_Params m @ m_Returns m))) ms)"
  by (simp_all add: spec_namedIn.simps [of "NamedParam pk ty"]
      spec_namedIn.simps [of "BasicParam ty"] spec_namedIn.simps [of "OtherParam dyn"]
      spec_namedIn.simps [of "ArrayParam elem len"] spec_namedIn.simps [of "SliceParam elem"]
      spec_namedIn.simps [of "PointerParam elem"] spec_namedIn.simps [of "MapParam key val"]
      spec_namedIn.simps [of "InterfaceParam ms"] concat_map_children)

lemma resolvePackages_spec:
  "resolvePackages p = namedPackages (spec_namedIn p)"
  "paramsPackages ps = namedPackages (concat (map spec_namedIn ps))"
  "resolveMethodPackages ms =
     namedPackages (concat (map (\<lambda>m. concat (map spec_namedIn (m_Params m @ m_Returns m))) ms))"
proof (induction p and ps and ms
    rule: resolvePackages_paramsPackages_resolveMethodPackages.induct)
  case (1 pk ty)
  show ?case by (simp add: spec_namedIn_cases namedPackages_def)
next
  case (2 elem len)
  then show ?case by (simp add: spec_namedIn_cases)
next
  case (3 elem)
  then show ?case by (simp add: spec_namedIn_cases)
next
  case (4 elem)
  then show ?case by (simp add: spec_namedIn_cases)
next
  case (5 key elem)
  then show ?case by (simp add: spec_namedIn_cases namedPackages_append)
next
  case (6 ms)
  then show ?case by (simp add: spec_namedIn_cases)
next
  case (7 ty)
  show ?case by (simp add: spec_namedIn_cases namedPackages_def)
next
  case (8 dyn)
  show ?case by (simp add: spec_namedIn_cases namedPackages_def)
next
  case 9
  show ?case by (simp add: namedPackages_def)
next
  case (10 p ps)
  then show ?case by (simp add: namedPackages_append)
next
  case 11
  show ?case by (simp add: namedPackages_def)
next
  case (12 name ps rs ms)
  then show ?case by (simp add: namedPackages_append)
qed

lemma buildImportMap_numbered:
  "buildImportMap pkg =
     numbered (foldl ins [] (filter (\<lambda>p. p \<noteq> pkg_PkgPath pkg)
       (concat (map (\<lambda>i. resolveMethodPackages (iface_Methods i)) (pkg_Interfaces pkg)))))"
  using interfacesLoop_numbered [of "pkg_PkgPath pkg" "pkg_Interfaces pkg" "[]"]
  by (simp add: buildImportMap_def numbered_def)

lemma set_foldl_ins: "set (foldl ins ks ps) = set ks \<union> set ps"
  by (induction ps arbitrary: ks) (auto simp: ins_def)

lemma packages_nonempty:
  "[] \<notin> set (resolvePackages p)"
  "[] \<notin> set (paramsPackages ps)"
  "[] \<notin> set (resolveMethodPackages ms)"
  by (induction p and ps and ms
      rule: resolvePackages_paramsPackages_resolveMethodPackages.induct) simp_all

lemma buildImportMap_no_empty_key: "map_of (buildImportMap pkg) [] = None"
proof -
  have "[] \<notin> set (map fst (buildImportMap pkg))"
    using packages_nonempty(3)
    by (auto simp: buildImportMap_numbered fst_numbered set_foldl_ins)
  then show ?thesis by (simp add: map_of_eq_None_iff)
qed

text \<open>
  C4. \<open>buildImportMap\<close> is a function of the package, and its value is the map of the
  specification: the foreign package paths in order of first discovery (interfaces in
  order, methods in order, parameters before returns, descending through arrays, slices,
  pointers, maps and anonymous interfaces), the package's own path and duplicates
  skipped, with the aliases \<^verbatim>\<open>i0\<close>, \<^verbatim>\<open>i1\<close>, \<^verbatim>\<open>i2\<close> in that order.
\<close>

theorem buildImportMap_first_discovery: "buildImportMap pkg = spec_importMap pkg"
proof -
  have "concat (map (\<lambda>i. resolveMethodPackages (iface_Methods i)) (pkg_Interfaces pkg))
          = spec_discovered pkg"
    unfolding spec_discovered_def
    by (simp add: resolvePackages_spec(3) namedPackages_concat comp_def)
  then show ?thesis
    by (simp add: buildImportMap_numbered spec_importMap_def firstSeen_def)
qed

text \<open>Both sides at a package with nested types: \<^verbatim>\<open>bytes\<close> inside a slice of pointers,
  \<^verbatim>\<open>time\<close> inside an array inside a map, \<^verbatim>\<open>context\<close> inside an anonymous interface.\<close>

lemma buildImportMap_pkgNested:
  "buildImportMap pkgNested =
     [(''bytes'', ''i0''), (''time'', ''i1''), (''context'', ''i2''), (''io'', ''i3'')]"
  by (simp add: pkgNested_def buildImportMap_def digit_def dec.simps)

lemma spec_importMap_pkgNested:
  "spec_importMap pkgNested =
     [(''bytes'', ''i0''), (''time'', ''i1''), (''context'', ''i2''), (''io'', ''i3'')]"
  by (simp add: pkgNested_def spec_importMap_def spec_discovered_def namedPackages_def
      spec_namedIn_cases firstSeen_def ins_def numbered_def aliasOf_def digit_def dec.simps
      upt_rec)

lemma digit_val: "d < 10 \<Longrightarrow> of_char (digit d) = 48 + d"
proof -
  assume "d < 10"
  then have "d \<in> {0, 1, 2, 3, 4, 5, 6, 7, 8, 9}" by auto
  then show ?thesis by (auto simp: digit_def)
qed

lemma undec_snoc: "undec (s @ [c]) = 10 * undec s + (of_char c - 48)"
  by (simp add: undec_def)

lemma undec_dec: "undec (dec n) = n"
proof (induction n rule: dec.induct)
  case (1 n)
  show ?case
  proof (cases "n < 10")
    case True
    then show ?thesis using digit_val [of n] by (simp add: dec.simps [of n] undec_def)
  next
    case False
    have "undec (dec n) = 10 * undec (dec (n div 10)) + (of_char (digit (n mod 10)) - 48)"
      using False by (simp add: dec.simps [of n] undec_snoc)
    also have "\<dots> = 10 * (n div 10) + n mod 10"
      using "1.IH" [OF False] digit_val [of "n mod 10"] by simp
    finally show ?thesis by simp
  qed
qed

lemma aliasOf_inj: "inj aliasOf"
proof (rule injI)
  fix m n assume "aliasOf m = aliasOf n"
  then have "undec (dec m) = undec (dec n)" by (simp add: aliasOf_def)
  then show "m = n" by (simp add: undec_dec)
qed

lemma foldl_ins_distinct: "distinct ks \<Longrightarrow> distinct (foldl ins ks ps)"
proof (induction ps arbitrary: ks)
  case Nil then show ?case by simp
next
  case (Cons p ps)
  have "distinct (ins ks p)" using Cons.prems by (simp add: ins_def)
  then show ?case using Cons.IH [of "ins ks p"] by simp
qed

text \<open>
  C2, as the code has it. The aliases of the import map are pairwise distinct, so are
  its package paths, and the package's own path is not among them. Nothing relates the
  aliases to the package's name.
\<close>

theorem buildImportMap_aliases_distinct:
  "distinct (map snd (buildImportMap pkg))
   \<and> distinct (map fst (buildImportMap pkg))
   \<and> pkg_PkgPath pkg \<notin> set (map fst (buildImportMap pkg))"
proof -
  obtain ks where eq: "buildImportMap pkg = numbered (foldl ins [] ks)"
    using buildImportMap_numbered [of pkg] by blast
  have "distinct (map aliasOf [0..<length (foldl ins [] ks)])"
    by (simp add: distinct_map aliasOf_inj [THEN inj_on_subset])
  moreover have "distinct (foldl ins [] ks)" using foldl_ins_distinct [of "[]" ks] by simp
  moreover have "pkg_PkgPath pkg \<notin> set (map fst (buildImportMap pkg))"
    using buildImportMap_self [of pkg] by (simp add: map_of_eq_None_iff)
  ultimately show ?thesis by (simp add: eq fst_numbered snd_numbered)
qed

text \<open>
  C2, as the claim words it, fails: for the package named \<^verbatim>\<open>i0\<close> the alias given to
  \<^verbatim>\<open>context\<close> is the package's own name.
\<close>

theorem buildImportMap_alias_counterexample:
  "buildImportMap pkgI0 = [(''context'', ''i0'')]
   \<and> pkg_Name pkgI0 \<in> set (map snd (buildImportMap pkgI0))"
  by (simp add: pkgI0_def buildImportMap_def digit_def dec.simps)


section \<open>Import statements\<close>

text \<open>The order in which the entries of the map are visited does not show in the sorted
  lines.\<close>

lemma importLines_order_irrelevant:
  "mset es = mset es' \<Longrightarrow> importLines es = importLines es'"
proof -
  assume "mset es = mset es'"
  then have "mset (map importLine es) = mset (map importLine es')" by (metis mset_map)
  then show ?thesis
    unfolding importLines_def by (metis properties_for_sort sorted_sort mset_sort)
qed

lemma writeImports_importMap: "importMap (writeImports verbs b) = importMap b"
  by (simp add: writeImports_def Let_def emit_def)

lemma NewBuilder_importMap: "importMap (NewBuilder verbs pkg) = buildImportMap pkg"
  by (simp add: NewBuilder_def Let_def writeImports_importMap emit_def)

lemma NewBuilder_pkgClient: "NewBuilder verbs pkgClient = builderClient"
  by (simp add: pkgClient_def builderClient_def NewBuilder_def buildImportMap_def
      writeImports_def importLines_def importLine_def emit_def Fprintf0_def digit_def
      dec.simps)

text \<open>
  C1, as the code has it. The import lines, one for each entry of the map, are in the
  bytewise order of the whole lines \<^verbatim>\<open>import <alias> "<path>"\<close>, so in the order of the
  alias texts; \<open>writeImports\<close> appends them, each followed by a newline, when no line
  holds a percent sign.
\<close>

theorem writeImports_sorted_lines:
  "sorted (importLines (importMap b))
   \<and> mset (importLines (importMap b)) = mset (map importLine (importMap b))
   \<and> (CHR ''%'' \<notin> set (Join (importLines (importMap b)) ''\<newline>'') \<longrightarrow>
        writeImports verbs b =
          emit b (Join (importLines (importMap b)) ''\<newline>''
                  @ (if importMap b = [] then [] else ''\<newline>'')))"
proof -
  have "length (importLines (importMap b)) = length (importMap b)"
    by (simp add: importLines_def)
  then have e: "(importLines (importMap b) = []) = (importMap b = [])" by auto
  have "sorted (importLines (importMap b))" by (simp add: importLines_def)
  moreover have "mset (importLines (importMap b)) = mset (map importLine (importMap b))"
    by (simp add: importLines_def)
  moreover have "CHR ''%'' \<notin> set (Join (importLines (importMap b)) ''\<newline>'') \<longrightarrow>
        writeImports verbs b =
          emit b (Join (importLines (importMap b)) ''\<newline>''
                  @ (if importMap b = [] then [] else ''\<newline>''))"
    using e by (simp add: writeImports_def Fprintf0_def emit_def Let_def)
  ultimately show ?thesis by blast
qed

theorem writeImports_sorted_lines_witness:
  \<open>CHR ''%'' \<notin> set (Join (importLines [(''context'', ''i0''), (''bytes'', ''i1'')]) ''\<newline>'')
   \<and> writeImports (\<lambda>s. s)
        \<lparr>buf = ''package testdata\<newline>'',
         importMap = [(''context'', ''i0''), (''bytes'', ''i1'')]\<rparr>
     = \<lparr>buf = ''package testdata\<newline>import i0 "context"\<newline>import i1 "bytes"\<newline>'',
        importMap = [(''context'', ''i0''), (''bytes'', ''i1'')]\<rparr>\<close>
  using writeImports_sorted_lines
    [of "\<lparr>buf = ''package testdata\<newline>'',
          importMap = [(''context'', ''i0''), (''bytes'', ''i1'')]\<rparr>" "\<lambda>s. s"]
  by (simp add: importLines_def importLine_def emit_def)

text \<open>
  C1, as the claim words it, fails: \<^verbatim>\<open>context\<close> is met before \<^verbatim>\<open>bytes\<close>, so its line,
  with alias \<^verbatim>\<open>i0\<close>, comes first, while \<^verbatim>\<open>bytes\<close> is the smaller path.
\<close>

theorem writeImports_path_order_counterexample:
  \<open>importLines (importMap (NewBuilder (\<lambda>s. s) pkgBytes))
     = [''import i0 "context"'', ''import i1 "bytes"'']
   \<and> spec_importLines (importMap (NewBuilder (\<lambda>s. s) pkgBytes))
     = [''import i1 "bytes"'', ''import i0 "context"'']
   \<and> importLines (importMap (NewBuilder (\<lambda>s. s) pkgBytes))
     \<noteq> spec_importLines (importMap (NewBuilder (\<lambda>s. s) pkgBytes))
   \<and> buf (NewBuilder (\<lambda>s. s) pkgBytes)
     = ''// Code generated by tracer v0.0.1. DO NOT EDIT.\<newline>package testdata\<newline>''
       @ ''import i0 "context"\<newline>import i1 "bytes"\<newline>''\<close>
  by (simp add: pkgBytes_def NewBuilder_def buildImportMap_def writeImports_def
      importLines_def spec_importLines_def importLine_def emit_def Fprintf0_def digit_def
      dec.simps)

section \<open>Named types\<close>

text \<open>
  C5. A named type with a non-empty package that the import map holds resolves to the
  alias, a dot and the type name; with a non-empty package the map does not hold, to the
  bare name; with an empty package, to the bare name. For the builder \<open>NewBuilder\<close>
  makes from a package, a named type of that package's own path resolves to the bare
  name.
\<close>

theorem resolveParam_named:
  "(pk \<noteq> [] \<and> map_of im pk = Some al \<longrightarrow>
      resolveParam im (NamedParam pk typ) = al @ ''.'' @ typ)
   \<and> (pk \<noteq> [] \<and> map_of im pk = None \<longrightarrow> resolveParam im (NamedParam pk typ) = typ)
   \<and> (pk = [] \<longrightarrow> resolveParam im (NamedParam pk typ) = typ)
   \<and> resolveParam (importMap (NewBuilder verbs pkg)) (NamedParam (pkg_PkgPath pkg) typ)
       = typ"
  using buildImportMap_self [of pkg]
  by (auto simp: NewBuilder_importMap)

theorem resolveParam_named_witness:
  "map_of [(''context'', ''i0'')] ''context'' = Some ''i0''
   \<and> resolveParam [(''context'', ''i0'')] (NamedParam ''context'' ''Context'') = ''i0.Context''
   \<and> map_of [(''context'', ''i0'')] ''bytes'' = None
   \<and> resolveParam [(''context'', ''i0'')] (NamedParam ''bytes'' ''Buffer'') = ''Buffer''
   \<and> resolveParam [(''context'', ''i0'')] (NamedParam [] ''Key'') = ''Key''
   \<and> resolveParam (importMap (NewBuilder (\<lambda>s. s) pkgClient))
        (NamedParam ''example.com/store'' ''Key'') = ''Key''"
  using NewBuilder_pkgClient [of "\<lambda>s. s"]
    resolveParam_named [of "''context''" "[(''context'', ''i0'')]" "''i0''" "''Context''"
      "\<lambda>s. s" pkgClient]
    resolveParam_named [of "''bytes''" "[(''context'', ''i0'')]" "''i0''" "''Buffer''"
      "\<lambda>s. s" pkgClient]
    resolveParam_named [of "[]" "[(''context'', ''i0'')]" "''i0''" "''Key''"
      "\<lambda>s. s" pkgClient]
  by (simp add: builderClient_def)

section \<open>Struct declarations\<close>

lemma attrsLoop_closed: "attrsLoop b as = emit b (concat (map (attrLine (importMap b)) as))"
proof (induction as arbitrary: b)
  case Nil show ?case by (simp add: emit_def)
next
  case (Cons a as)
  show ?case by (simp add: Cons.IH emit_def attrLine_def)
qed

lemma resolveParams_map: "resolveParams im ps = map (resolveParam im) ps"
  by (induction ps) simp_all

text \<open>
  C10. \<open>WriteStruct\<close> writes one line for each attribute, its type resolved by
  \<open>resolveParam\<close> against the builder's import map, as \<open>WriteMethod\<close> resolves the
  parameter and return types. For the builder \<open>NewBuilder\<close> makes, the line of an
  attribute of a named type whose package the map holds has the alias, a dot and the
  type name; when the map does not hold the package, the line has the bare type name.
\<close>

theorem WriteStruct_resolves:
  "WriteStruct b strct =
     emit b (''\<newline>type '' @ strct_Name strct @ '' struct {\<newline>''
             @ concat (map (attrLine (importMap b)) (strct_Attrs strct)) @ ''}\<newline>'')
   \<and> (b = NewBuilder verbs pkg \<and> map_of (importMap b) pk = Some al \<longrightarrow>
        attrLine (importMap b) \<lparr>attr_Name = n, attr_Type = NamedParam pk typ\<rparr>
          = n @ '' '' @ al @ ''.'' @ typ @ ''\<newline>'')
   \<and> (map_of (importMap b) pk = None \<longrightarrow>
        attrLine (importMap b) \<lparr>attr_Name = n, attr_Type = NamedParam pk typ\<rparr>
          = n @ '' '' @ typ @ ''\<newline>'')
   \<and> WriteMethod b None m (\<lambda>b. b) =
        emit b (''\<newline>func ''
          @ generateMethodSig [] [] (m_Name m)
              (map (resolveParam (importMap b)) (m_Params m))
              (map (resolveParam (importMap b)) (m_Returns m))
          @ '' {\<newline>}\<newline>'')"
proof (intro conjI impI)
  show "WriteStruct b strct =
     emit b (''\<newline>type '' @ strct_Name strct @ '' struct {\<newline>''
             @ concat (map (attrLine (importMap b)) (strct_Attrs strct)) @ ''}\<newline>'')"
    by (simp add: WriteStruct_def Let_def attrsLoop_closed emit_def)
next
  assume a: "b = NewBuilder verbs pkg \<and> map_of (importMap b) pk = Some al"
  then have m: "map_of (importMap b) pk = Some al" by (rule conjunct2)
  have "b = NewBuilder verbs pkg" using a by (rule conjunct1)
  then have "importMap b = buildImportMap pkg" by (simp add: NewBuilder_importMap)
  then have "pk \<noteq> []" using m buildImportMap_no_empty_key [of pkg] by auto
  then show "attrLine (importMap b) \<lparr>attr_Name = n, attr_Type = NamedParam pk typ\<rparr>
          = n @ '' '' @ al @ ''.'' @ typ @ ''\<newline>''"
    using m by (simp add: attrLine_def)
next
  assume "map_of (importMap b) pk = None"
  then show "attrLine (importMap b) \<lparr>attr_Name = n, attr_Type = NamedParam pk typ\<rparr>
          = n @ '' '' @ typ @ ''\<newline>''"
    by (simp add: attrLine_def)
next
  show "WriteMethod b None m (\<lambda>b. b) =
        emit b (''\<newline>func ''
          @ generateMethodSig [] [] (m_Name m)
              (map (resolveParam (importMap b)) (m_Params m))
              (map (resolveParam (importMap b)) (m_Returns m))
          @ '' {\<newline>}\<newline>'')"
    using generateMethodSig_append [of "buf b @ ''\<newline>func ''" "[]" "m_Name m"
        "map (resolveParam (importMap b)) (m_Params m)"
        "map (resolveParam (importMap b)) (m_Returns m)"]
    by (simp add: WriteMethod_def Let_def emit_def resolveParams_map)
qed

theorem WriteStruct_resolves_witness:
  "builderClient = NewBuilder (\<lambda>s. s) pkgClient
   \<and> map_of (importMap builderClient) ''context'' = Some ''i0''
   \<and> attrLine (importMap builderClient)
        \<lparr>attr_Name = ''ctx'', attr_Type = NamedParam ''context'' ''Context''\<rparr>
      = ''ctx i0.Context\<newline>''
   \<and> map_of (importMap builderClient) ''bytes'' = None
   \<and> attrLine (importMap builderClient)
        \<lparr>attr_Name = ''out'', attr_Type = NamedParam ''bytes'' ''Buffer''\<rparr>
      = ''out Buffer\<newline>''
   \<and> buf (WriteStruct builderClient strctClient)
      = buf builderClient
        @ ''\<newline>type client struct {\<newline>ctx i0.Context\<newline>out *Buffer\<newline>}\<newline>''"
  using NewBuilder_pkgClient [of "\<lambda>s. s"]
    WriteStruct_resolves [of builderClient strctClient "\<lambda>s. s" pkgClient "''context''"
      "''i0''" "''ctx''" "''Context''" "Method [] [] []"]
    WriteStruct_resolves [of builderClient strctClient "\<lambda>s. s" pkgClient "''bytes''"
      "''i0''" "''out''" "''Buffer''" "Method [] [] []"]
  by (simp add: builderClient_def strctClient_def emit_def attrLine_def)

end
